theory Spec2Isabelle
  imports Complex_Main
begin

section \<open>Numbers, warnings and exceptions\<close>

text \<open>
  The program is \<^verbatim>\<open>src/options/black_scholes.py\<close>: the class \<^verbatim>\<open>BlackScholes\<close> with its
  constructor and twelve query methods. Its numbers are Python floats (the five fields)
  and numpy \<^verbatim>\<open>float64\<close> scalars (everything that comes out of \<^verbatim>\<open>np.log\<close>, \<^verbatim>\<open>np.sqrt\<close>,
  \<^verbatim>\<open>np.exp\<close>, \<^verbatim>\<open>norm.cdf\<close> and \<^verbatim>\<open>norm.pdf\<close>).

  Rounding, overflow and underflow are idealised away: a finite number is a real number
  and arithmetic on finite numbers is exact. What is kept of IEEE 754 is what the program
  can observe without rounding: the two infinities and NaN that numpy returns where a
  Python float operation would raise, and the \<^verbatim>\<open>RuntimeWarning\<close> numpy emits when it
  produces one of them from ordinary operands. Zero is unsigned (every zero counts as
  \<^verbatim>\<open>+0.0\<close>), which is what \<^verbatim>\<open>sigma * np.sqrt(0)\<close> is for a positive volatility.
\<close>

datatype npfloat = Fin real | PInf | NInf | NaN

text \<open>The two kinds of \<^verbatim>\<open>RuntimeWarning\<close> of numpy that do not come from rounding:
  \<^verbatim>\<open>divide by zero encountered\<close> and \<^verbatim>\<open>invalid value encountered\<close>.\<close>

datatype warning = DivideByZero | InvalidValue

text \<open>The only exception a method of the class can raise: true division of two Python
  numbers by zero, in \<^verbatim>\<open>self.S/self.K\<close>.\<close>

datatype error = ZeroDivisionError

fun is_finite :: "npfloat \<Rightarrow> bool" where
  "is_finite (Fin x) = True"
| "is_finite PInf = False"
| "is_finite NInf = False"
| "is_finite NaN = False"

fun np_neg :: "npfloat \<Rightarrow> npfloat" where
  "np_neg (Fin x) = Fin (- x)"
| "np_neg PInf = NInf"
| "np_neg NInf = PInf"
| "np_neg NaN = NaN"

fun np_add :: "npfloat \<Rightarrow> npfloat \<Rightarrow> npfloat \<times> warning list" where
  "np_add (Fin x) (Fin y) = (Fin (x + y), [])"
| "np_add NaN b = (NaN, [])"
| "np_add a NaN = (NaN, [])"
| "np_add PInf NInf = (NaN, [InvalidValue])"
| "np_add NInf PInf = (NaN, [InvalidValue])"
| "np_add PInf b = (PInf, [])"
| "np_add NInf b = (NInf, [])"
| "np_add a PInf = (PInf, [])"
| "np_add a NInf = (NInf, [])"

definition np_sub :: "npfloat \<Rightarrow> npfloat \<Rightarrow> npfloat \<times> warning list" where
  "np_sub a b = np_add a (np_neg b)"

text \<open>An infinity with the sign of a non-zero real.\<close>

definition signed_inf :: "real \<Rightarrow> npfloat" where
  "signed_inf x = (if 0 < x then PInf else NInf)"

fun np_mul :: "npfloat \<Rightarrow> npfloat \<Rightarrow> npfloat \<times> warning list" where
  "np_mul (Fin x) (Fin y) = (Fin (x * y), [])"
| "np_mul NaN b = (NaN, [])"
| "np_mul a NaN = (NaN, [])"
| "np_mul (Fin x) PInf = (if x = 0 then (NaN, [InvalidValue]) else (signed_inf x, []))"
| "np_mul (Fin x) NInf = (if x = 0 then (NaN, [InvalidValue]) else (signed_inf (- x), []))"
| "np_mul PInf (Fin y) = (if y = 0 then (NaN, [InvalidValue]) else (signed_inf y, []))"
| "np_mul NInf (Fin y) = (if y = 0 then (NaN, [InvalidValue]) else (signed_inf (- y), []))"
| "np_mul PInf PInf = (PInf, [])"
| "np_mul NInf NInf = (PInf, [])"
| "np_mul PInf NInf = (NInf, [])"
| "np_mul NInf PInf = (NInf, [])"

fun np_div :: "npfloat \<Rightarrow> npfloat \<Rightarrow> npfloat \<times> warning list" where
  "np_div (Fin x) (Fin y) =
     (if y \<noteq> 0 then (Fin (x / y), [])
      else if x = 0 then (NaN, [InvalidValue])
      else (signed_inf x, [DivideByZero]))"
| "np_div NaN b = (NaN, [])"
| "np_div a NaN = (NaN, [])"
| "np_div (Fin x) PInf = (Fin 0, [])"
| "np_div (Fin x) NInf = (Fin 0, [])"
| "np_div PInf (Fin y) = (if 0 \<le> y then PInf else NInf, [])"
| "np_div NInf (Fin y) = (if 0 \<le> y then NInf else PInf, [])"
| "np_div PInf PInf = (NaN, [InvalidValue])"
| "np_div PInf NInf = (NaN, [InvalidValue])"
| "np_div NInf PInf = (NaN, [InvalidValue])"
| "np_div NInf NInf = (NaN, [InvalidValue])"

text \<open>\<^verbatim>\<open>np.log\<close>, \<^verbatim>\<open>np.sqrt\<close> and \<^verbatim>\<open>np.exp\<close> are only ever applied to Python floats.\<close>

definition np_log :: "real \<Rightarrow> npfloat \<times> warning list" where
  "np_log x =
     (if 0 < x then (Fin (ln x), [])
      else if x = 0 then (NInf, [DivideByZero])
      else (NaN, [InvalidValue]))"

definition np_sqrt :: "real \<Rightarrow> npfloat \<times> warning list" where
  "np_sqrt x = (if 0 \<le> x then (Fin (sqrt x), []) else (NaN, [InvalidValue]))"

definition np_exp :: "real \<Rightarrow> npfloat" where
  "np_exp x = Fin (exp x)"

section \<open>The standard normal distribution\<close>

text \<open>
  \<^verbatim>\<open>scipy.stats.norm\<close> is a library, not code of the repository. Its density is
  \<open>exp (- x\<^sup>2 / 2) / sqrt (2 pi)\<close>. Its distribution function is the integral of the
  density from minus infinity; it is written here as one half plus the integral from
  zero, and that integral as the power series obtained by integrating the exponential
  series term by term:
  \<open>x - x^3 / (2 * 3) + x^5 / (2^2 * 2! * 5) - x^7 / (2^3 * 3! * 7) + ...\<close>
\<close>

definition phi :: "real \<Rightarrow> real" where
  "phi x = exp (- x\<^sup>2 / 2) / sqrt (2 * pi)"

definition gauss_coeff :: "nat \<Rightarrow> real" where
  "gauss_coeff n =
     (if even n then 0
      else (- 1 / 2) ^ ((n - 1) div 2) / (fact ((n - 1) div 2) * real n))"

definition gauss_integral :: "real \<Rightarrow> real" where
  "gauss_integral x = (\<Sum>n. gauss_coeff n * x ^ n)"

definition Phi :: "real \<Rightarrow> real" where
  "Phi x = 1 / 2 + gauss_integral x / sqrt (2 * pi)"

text \<open>\<^verbatim>\<open>norm.cdf\<close> and \<^verbatim>\<open>norm.pdf\<close> on a numpy scalar: the limits at the infinities,
  NaN for NaN, and no warning.\<close>

fun norm_cdf :: "npfloat \<Rightarrow> npfloat" where
  "norm_cdf (Fin x) = Fin (Phi x)"
| "norm_cdf PInf = Fin 1"
| "norm_cdf NInf = Fin 0"
| "norm_cdf NaN = NaN"

fun norm_pdf :: "npfloat \<Rightarrow> npfloat" where
  "norm_pdf (Fin x) = Fin (phi x)"
| "norm_pdf PInf = Fin 0"
| "norm_pdf NInf = Fin 0"
| "norm_pdf NaN = NaN"

section \<open>The object and the methods' effects\<close>

record BlackScholes =
  S :: real
  K :: real
  T :: real
  r :: real
  sigma :: real

text \<open>
  A method runs on the object it is called on and on the warnings emitted so far; it
  returns a value or raises, and leaves an object and the warnings behind.
\<close>

record world =
  self :: BlackScholes
  warnings :: "warning list"

type_synonym 'a py = "world \<Rightarrow> (error + 'a) \<times> world"

definition return_py :: "'a \<Rightarrow> 'a py" where
  "return_py x w = (Inr x, w)"

definition raise_py :: "error \<Rightarrow> 'a py" where
  "raise_py e w = (Inl e, w)"

definition bind_py :: "'a py \<Rightarrow> ('a \<Rightarrow> 'b py) \<Rightarrow> 'b py" where
  "bind_py c f w = (case c w of (Inl e, w') \<Rightarrow> (Inl e, w') | (Inr x, w') \<Rightarrow> f x w')"

text \<open>Reading an attribute of \<^verbatim>\<open>self\<close>.\<close>

definition attr :: "(BlackScholes \<Rightarrow> real) \<Rightarrow> real py" where
  "attr f w = (Inr (f (self w)), w)"

text \<open>A numpy operation: its value, and its warnings appended to those emitted so far.\<close>

definition np :: "npfloat \<times> warning list \<Rightarrow> npfloat py" where
  "np vw w = (Inr (fst vw), w\<lparr>warnings := warnings w @ snd vw\<rparr>)"

text \<open>True division of two Python numbers.\<close>

definition py_truediv :: "real \<Rightarrow> real \<Rightarrow> real py" where
  "py_truediv x y = (if y = 0 then raise_py ZeroDivisionError else return_py (x / y))"

section \<open>The class\<close>


text \<open>\<^verbatim>\<open>(np.log(self.S/self.K) + (self.r + 0.5 * self.sigma**2) * self.T) / (self.sigma * np.sqrt(self.T))\<close>\<close>

definition d1 :: "npfloat py" where
  "d1 =
     bind_py (attr S) (\<lambda>s. bind_py (attr K) (\<lambda>k.
     bind_py (py_truediv s k) (\<lambda>q.
     bind_py (np (np_log q)) (\<lambda>l.
     bind_py (attr r) (\<lambda>rate. bind_py (attr sigma) (\<lambda>vol. bind_py (attr T) (\<lambda>t.
     bind_py (np (np_add l (Fin ((rate + 0.5 * vol\<^sup>2) * t)))) (\<lambda>num.
     bind_py (attr sigma) (\<lambda>vol'. bind_py (attr T) (\<lambda>t'.
     bind_py (np (np_sqrt t')) (\<lambda>root.
     bind_py (np (np_mul (Fin vol') root)) (\<lambda>den.
     np (np_div num den)))))))))))))"

text \<open>\<^verbatim>\<open>BlackScholes.d1(self) - self.sigma * np.sqrt(self.T)\<close>\<close>

definition d2 :: "npfloat py" where
  "d2 =
     bind_py d1 (\<lambda>a.
     bind_py (attr sigma) (\<lambda>vol. bind_py (attr T) (\<lambda>t.
     bind_py (np (np_sqrt t)) (\<lambda>root.
     bind_py (np (np_mul (Fin vol) root)) (\<lambda>b.
     np (np_sub a b))))))"

text \<open>Both price methods call \<^verbatim>\<open>self.d1()\<close> and \<^verbatim>\<open>self.d2()\<close> first and test
  \<^verbatim>\<open>self.T == 0\<close> afterwards.\<close>

definition price_european_call :: "npfloat py" where
  "price_european_call =
     bind_py d1 (\<lambda>a. bind_py d2 (\<lambda>b.
     bind_py (attr T) (\<lambda>t.
       if t = 0 then
         bind_py (attr S) (\<lambda>s. bind_py (attr K) (\<lambda>k.
         return_py (Fin (max 0 (s - k)))))
       else
         bind_py (attr S) (\<lambda>s.
         bind_py (np (np_mul (Fin s) (norm_cdf a))) (\<lambda>x.
         bind_py (attr K) (\<lambda>k. bind_py (attr r) (\<lambda>rate. bind_py (attr T) (\<lambda>t'.
         bind_py (np (np_mul (Fin k) (np_exp (- rate * t')))) (\<lambda>y.
         bind_py (np (np_mul y (norm_cdf b))) (\<lambda>z.
         np (np_sub x z)))))))))))"

definition price_european_put :: "npfloat py" where
  "price_european_put =
     bind_py d1 (\<lambda>a. bind_py d2 (\<lambda>b.
     bind_py (attr T) (\<lambda>t.
       if t = 0 then
         bind_py (attr K) (\<lambda>k. bind_py (attr S) (\<lambda>s.
         return_py (Fin (max 0 (k - s)))))
       else
         bind_py (attr K) (\<lambda>k. bind_py (attr r) (\<lambda>rate. bind_py (attr T) (\<lambda>t'.
         bind_py (np (np_mul (Fin k) (np_exp (- rate * t')))) (\<lambda>y.
         bind_py (np (np_mul y (norm_cdf (np_neg b)))) (\<lambda>z.
         bind_py (attr S) (\<lambda>s.
         bind_py (np (np_mul (Fin s) (norm_cdf (np_neg a)))) (\<lambda>x.
         np (np_sub z x)))))))))))"

definition delta_european_call :: "npfloat py" where
  "delta_european_call = bind_py d1 (\<lambda>a. return_py (norm_cdf a))"

definition delta_european_put :: "npfloat py" where
  "delta_european_put = bind_py d1 (\<lambda>a. np (np_sub (norm_cdf a) (Fin 1)))"

text \<open>\<^verbatim>\<open>norm.pdf(self.d1()) / (self.S * self.sigma * np.sqrt(self.T))\<close>\<close>

definition gamma :: "npfloat py" where
  "gamma =
     bind_py d1 (\<lambda>a.
     bind_py (attr S) (\<lambda>s. bind_py (attr sigma) (\<lambda>vol. bind_py (attr T) (\<lambda>t.
     bind_py (np (np_sqrt t)) (\<lambda>root.
     bind_py (np (np_mul (Fin (s * vol)) root)) (\<lambda>den.
     np (np_div (norm_pdf a) den)))))))"

text \<open>\<^verbatim>\<open>(-self.S * self.sigma * norm.pdf(d1)) / (2 * np.sqrt(self.T)) - self.r * self.K * np.exp(-self.r * self.T) * norm.cdf(d2)\<close>\<close>

definition theta_european_call :: "npfloat py" where
  "theta_european_call =
     bind_py d1 (\<lambda>a. bind_py d2 (\<lambda>b.
     bind_py (attr S) (\<lambda>s. bind_py (attr sigma) (\<lambda>vol.
     bind_py (np (np_mul (Fin (- s * vol)) (norm_pdf a))) (\<lambda>num.
     bind_py (attr T) (\<lambda>t.
     bind_py (np (np_sqrt t)) (\<lambda>root.
     bind_py (np (np_mul (Fin 2) root)) (\<lambda>den.
     bind_py (np (np_div num den)) (\<lambda>x.
     bind_py (attr r) (\<lambda>rate. bind_py (attr K) (\<lambda>k.
     bind_py (attr r) (\<lambda>rate'. bind_py (attr T) (\<lambda>t'.
     bind_py (np (np_mul (Fin (rate * k)) (np_exp (- rate' * t')))) (\<lambda>y.
     bind_py (np (np_mul y (norm_cdf b))) (\<lambda>z.
     np (np_sub x z))))))))))))))))"

definition theta_european_put :: "npfloat py" where
  "theta_european_put =
     bind_py d1 (\<lambda>a. bind_py d2 (\<lambda>b.
     bind_py (attr S) (\<lambda>s. bind_py (attr sigma) (\<lambda>vol.
     bind_py (np (np_mul (Fin (- s * vol)) (norm_pdf a))) (\<lambda>num.
     bind_py (attr T) (\<lambda>t.
     bind_py (np (np_sqrt t)) (\<lambda>root.
     bind_py (np (np_mul (Fin 2) root)) (\<lambda>den.
     bind_py (np (np_div num den)) (\<lambda>x.
     bind_py (attr r) (\<lambda>rate. bind_py (attr K) (\<lambda>k.
     bind_py (attr r) (\<lambda>rate'. bind_py (attr T) (\<lambda>t'.
     bind_py (np (np_mul (Fin (rate * k)) (np_exp (- rate' * t')))) (\<lambda>y.
     bind_py (np (np_mul y (norm_cdf (np_neg b)))) (\<lambda>z.
     np (np_add x z))))))))))))))))"

text \<open>\<^verbatim>\<open>self.S * np.sqrt(self.T) * norm.pdf(self.d1())\<close>\<close>

definition vega :: "npfloat py" where
  "vega =
     bind_py (attr S) (\<lambda>s. bind_py (attr T) (\<lambda>t.
     bind_py (np (np_sqrt t)) (\<lambda>root.
     bind_py (np (np_mul (Fin s) root)) (\<lambda>x.
     bind_py d1 (\<lambda>a.
     np (np_mul x (norm_pdf a)))))))"

text \<open>\<^verbatim>\<open>self.K * self.T * np.exp(-self.r * self.T) * norm.cdf(self.d2())\<close>\<close>

definition rho_european_call :: "npfloat py" where
  "rho_european_call =
     bind_py (attr K) (\<lambda>k. bind_py (attr T) (\<lambda>t.
     bind_py (attr r) (\<lambda>rate. bind_py (attr T) (\<lambda>t'.
     bind_py (np (np_mul (Fin (k * t)) (np_exp (- rate * t')))) (\<lambda>x.
     bind_py d2 (\<lambda>b.
     np (np_mul x (norm_cdf b))))))))"

definition rho_european_put :: "npfloat py" where
  "rho_european_put =
     bind_py (attr K) (\<lambda>k. bind_py (attr T) (\<lambda>t.
     bind_py (attr r) (\<lambda>rate. bind_py (attr T) (\<lambda>t'.
     bind_py (np (np_mul (Fin (- k * t)) (np_exp (- rate * t')))) (\<lambda>x.
     bind_py d2 (\<lambda>b.
     np (np_mul x (norm_cdf (np_neg b)))))))))"

section \<open>Calling a method\<close>

text \<open>A call on a model starts with no warning emitted. Of what comes back,
  \<open>result\<close> is the value or the exception, \<open>emitted\<close> the warnings and \<open>after\<close> the
  object as the call leaves it.\<close>

definition call :: "'a py \<Rightarrow> BlackScholes \<Rightarrow> (error + 'a) \<times> world" where
  "call c m = c \<lparr>self = m, warnings = []\<rparr>"

definition result :: "'a py \<Rightarrow> BlackScholes \<Rightarrow> error + 'a" where
  "result c m = fst (call c m)"

definition emitted :: "'a py \<Rightarrow> BlackScholes \<Rightarrow> warning list" where
  "emitted c m = warnings (snd (call c m))"

definition after :: "'a py \<Rightarrow> BlackScholes \<Rightarrow> BlackScholes" where
  "after c m = self (snd (call c m))"

text \<open>The twelve queries of the class.\<close>

datatype query =
    Q_d1 | Q_d2 | Q_price_european_call | Q_price_european_put
  | Q_delta_european_call | Q_delta_european_put | Q_gamma
  | Q_theta_european_call | Q_theta_european_put | Q_vega
  | Q_rho_european_call | Q_rho_european_put

fun dispatch :: "query \<Rightarrow> npfloat py" where
  "dispatch Q_d1 = d1"
| "dispatch Q_d2 = d2"
| "dispatch Q_price_european_call = price_european_call"
| "dispatch Q_price_european_put = price_european_put"
| "dispatch Q_delta_european_call = delta_european_call"
| "dispatch Q_delta_european_put = delta_european_put"
| "dispatch Q_gamma = gamma"
| "dispatch Q_theta_european_call = theta_european_call"
| "dispatch Q_theta_european_put = theta_european_put"
| "dispatch Q_vega = vega"
| "dispatch Q_rho_european_call = rho_european_call"
| "dispatch Q_rho_european_put = rho_european_put"


section \<open>Closed forms and frame conditions\<close>

text \<open>What \<^verbatim>\<open>d1\<close> and \<^verbatim>\<open>d2\<close> compute where nothing degenerates.\<close>

definition d1_real :: "BlackScholes \<Rightarrow> real" where
  "d1_real m = (ln (S m / K m) + (r m + 0.5 * (sigma m)\<^sup>2) * T m) / (sigma m * sqrt (T m))"

definition d2_real :: "BlackScholes \<Rightarrow> real" where
  "d2_real m = d1_real m - sigma m * sqrt (T m)"

text \<open>A computation returns in a world when it raises nothing and leaves the world as it
  was but for the warnings it adds.\<close>

definition returns :: "'a py \<Rightarrow> world \<Rightarrow> bool" where
  "returns c w \<longleftrightarrow> (\<exists>x ws. c w = (Inr x, w\<lparr>warnings := warnings w @ ws\<rparr>))"

text \<open>A computation only reads when it leaves the object as it found it and its outcome
  is determined by the object alone.\<close>

definition reads_only :: "'a py \<Rightarrow> bool" where
  "reads_only c \<longleftrightarrow>
     (\<forall>w. self (snd (c w)) = self w) \<and>
     (\<forall>w w'. self w = self w' \<longrightarrow> fst (c w) = fst (c w'))"


section \<open>Running the monad\<close>

lemma bind_return [simp]: "bind_py (return_py x) f w = f x w"
  by (simp add: bind_py_def return_py_def)

lemma bind_raise [simp]: "bind_py (raise_py e) f w = (Inl e, w)"
  by (simp add: bind_py_def raise_py_def)

lemma bind_attr [simp]: "bind_py (attr g) f w = f (g (self w)) w"
  by (simp add: bind_py_def attr_def)

lemma bind_np [simp]: "bind_py (np vw) f w = f (fst vw) (w\<lparr>warnings := warnings w @ snd vw\<rparr>)"
  by (simp add: bind_py_def np_def)

lemma bind_truediv [simp]:
  "bind_py (py_truediv x y) f w = (if y = 0 then (Inl ZeroDivisionError, w) else f (x / y) w)"
  by (simp add: py_truediv_def)

lemma bind_result: "c w = (Inr x, w') \<Longrightarrow> bind_py c f w = f x w'"
  by (simp add: bind_py_def)

lemma d1_regular:
  assumes "0 < S (self w)" "0 < K (self w)" "0 < T (self w)" "sigma (self w) \<noteq> 0"
  shows "d1 w = (Inr (Fin (d1_real (self w))), w)"
  using assms by (simp add: d1_def np_log_def np_sqrt_def np_def d1_real_def)

lemma d2_regular:
  assumes "0 < S (self w)" "0 < K (self w)" "0 < T (self w)" "sigma (self w) \<noteq> 0"
  shows "d2 w = (Inr (Fin (d2_real (self w))), w)"
  using assms by (simp add: d2_def bind_result [OF d1_regular] np_sqrt_def np_def np_sub_def d2_real_def)

lemma call_regular:
  assumes "0 < S (self w)" "0 < K (self w)" "0 < T (self w)" "sigma (self w) \<noteq> 0"
  shows "price_european_call w = (Inr (Fin (S (self w) * Phi (d1_real (self w)) - K (self w) * exp (- r (self w) * T (self w)) * Phi (d2_real (self w)))), w)"
  using assms by (simp add: price_european_call_def bind_result [OF d1_regular] bind_result [OF d2_regular] np_def np_sub_def np_exp_def)


lemma put_regular:
  assumes "0 < S (self w)" "0 < K (self w)" "0 < T (self w)" "sigma (self w) \<noteq> 0"
  shows "price_european_put w = (Inr (Fin (K (self w) * exp (- r (self w) * T (self w)) * Phi (- d2_real (self w)) - S (self w) * Phi (- d1_real (self w)))), w)"
  using assms by (simp add: price_european_put_def bind_result [OF d1_regular] bind_result [OF d2_regular] np_def np_sub_def np_exp_def)



lemma theta_call_regular:
  assumes "0 < S (self w)" "0 < K (self w)" "0 < T (self w)" "sigma (self w) \<noteq> 0"
  shows "theta_european_call w =
    (Inr (Fin (- S (self w) * sigma (self w) * phi (d1_real (self w)) / (2 * sqrt (T (self w)))
       - r (self w) * K (self w) * exp (- r (self w) * T (self w)) * Phi (d2_real (self w)))), w)"
  using assms by (simp add: theta_european_call_def bind_result [OF d1_regular] bind_result [OF d2_regular] np_def np_sub_def np_exp_def np_sqrt_def)

lemma theta_put_regular:
  assumes "0 < S (self w)" "0 < K (self w)" "0 < T (self w)" "sigma (self w) \<noteq> 0"
  shows "theta_european_put w =
    (Inr (Fin (- S (self w) * sigma (self w) * phi (d1_real (self w)) / (2 * sqrt (T (self w)))
       + r (self w) * K (self w) * exp (- r (self w) * T (self w)) * Phi (- d2_real (self w)))), w)"
  using assms by (simp add: theta_european_put_def bind_result [OF d1_regular] bind_result [OF d2_regular] np_def np_sub_def np_exp_def np_sqrt_def)

lemma d1_expiry:
  assumes "T (self w) = 0" "0 < S (self w)" "0 < K (self w)"
  shows "d1 w =
    (Inr (if S (self w) = K (self w) then NaN
          else if K (self w) < S (self w) then PInf else NInf),
     w\<lparr>warnings := warnings w @
        [if S (self w) = K (self w) then InvalidValue else DivideByZero]\<rparr>)"
  using assms by (simp add: d1_def np_log_def np_sqrt_def np_def signed_inf_def ln_div)

lemma d2_expiry:
  assumes "T (self w) = 0" "0 < S (self w)" "0 < K (self w)"
  shows "d2 w =
    (Inr (if S (self w) = K (self w) then NaN
          else if K (self w) < S (self w) then PInf else NInf),
     w\<lparr>warnings := warnings w @
        [if S (self w) = K (self w) then InvalidValue else DivideByZero]\<rparr>)"
  using assms by (simp add: d2_def bind_result [OF d1_expiry] np_sqrt_def np_sub_def np_def)

lemma call_expiry:
  assumes "T (self w) = 0" "0 < S (self w)" "0 < K (self w)"
  shows "price_european_call w =
    (Inr (Fin (max 0 (S (self w) - K (self w)))),
     w\<lparr>warnings := warnings w @
        [if S (self w) = K (self w) then InvalidValue else DivideByZero,
         if S (self w) = K (self w) then InvalidValue else DivideByZero]\<rparr>)"
  using assms by (simp add: price_european_call_def bind_result [OF d1_expiry] bind_result [OF d2_expiry] return_py_def)

lemma put_expiry:
  assumes "T (self w) = 0" "0 < S (self w)" "0 < K (self w)"
  shows "price_european_put w =
    (Inr (Fin (max 0 (K (self w) - S (self w)))),
     w\<lparr>warnings := warnings w @
        [if S (self w) = K (self w) then InvalidValue else DivideByZero,
         if S (self w) = K (self w) then InvalidValue else DivideByZero]\<rparr>)"
  using assms by (simp add: price_european_put_def bind_result [OF d1_expiry] bind_result [OF d2_expiry] return_py_def)



section \<open>When a query returns and when it raises\<close>

lemma returns_return: "returns (return_py x) w"
  unfolding returns_def return_py_def by (intro exI [of _ x] exI [of _ "[]"]) simp

lemma returns_attr: "returns (attr g) w"
  unfolding returns_def attr_def by (intro exI [of _ "g (self w)"] exI [of _ "[]"]) simp


lemma returns_truediv: "y \<noteq> 0 \<Longrightarrow> returns (py_truediv x y) w"
  by (simp add: py_truediv_def returns_return)

























section \<open>Queries only read\<close>

lemma reads_only_return: "reads_only (return_py x)"
  by (simp add: reads_only_def return_py_def)

lemma reads_only_attr: "reads_only (attr g)"
  by (simp add: reads_only_def attr_def)

lemma reads_only_np: "reads_only (np vw)"
  by (simp add: reads_only_def np_def)

lemma reads_only_truediv: "reads_only (py_truediv x y)"
  by (simp add: reads_only_def py_truediv_def return_py_def raise_py_def)

lemma reads_only_if: "reads_only c \<Longrightarrow> reads_only d \<Longrightarrow> reads_only (if b then c else d)"
  by simp

lemma reads_only_bind:
  assumes c: "reads_only c" and f: "\<And>x. reads_only (f x)"
  shows "reads_only (bind_py c f)"
proof -
  have frame: "self (snd (bind_py c f w)) = self w" for w
  proof (cases "c w")
    case (Pair a w')
    then have w': "self w' = self w"
      using c unfolding reads_only_def by (metis snd_conv)
    show ?thesis
    proof (cases a)
      case (Inl e)
      with Pair w' show ?thesis by (simp add: bind_py_def)
    next
      case (Inr x)
      have "self (snd (f x w')) = self w'"
        using f [of x] unfolding reads_only_def by blast
      with Pair Inr w' show ?thesis by (simp add: bind_py_def)
    qed
  qed
  have det: "fst (bind_py c f w) = fst (bind_py c f v)" if same: "self w = self v" for w v
  proof -
    obtain a w' where cw: "c w = (a, w')" by (cases "c w")
    obtain b v' where cv: "c v = (b, v')" by (cases "c v")
    have ab: "a = b"
      using c same cw cv unfolding reads_only_def by (metis fst_conv)
    have "self w' = self w" "self v' = self v"
      using c cw cv unfolding reads_only_def by (metis snd_conv)+
    with same have same': "self w' = self v'" by simp
    show ?thesis
    proof (cases a)
      case (Inl e)
      with cw cv ab have "c w = (Inl e, w')" "c v = (Inl e, v')" by simp_all
      then show ?thesis by (simp add: bind_py_def)
    next
      case (Inr x)
      have "fst (f x w') = fst (f x v')"
        using f [of x] same' unfolding reads_only_def by blast
      moreover from cw cv ab Inr have "c w = (Inr x, w')" "c v = (Inr x, v')" by simp_all
      ultimately show ?thesis by (simp add: bind_py_def)
    qed
  qed
  show ?thesis
    unfolding reads_only_def using frame det by blast
qed

lemmas reads_only_intros =
  reads_only_bind reads_only_return reads_only_attr reads_only_np reads_only_truediv
  reads_only_if

lemma d1_reads_only: "reads_only d1"
  unfolding d1_def by (intro reads_only_intros)

lemma d2_reads_only: "reads_only d2"
  unfolding d2_def by (intro reads_only_intros d1_reads_only)

lemma dispatch_reads_only: "reads_only (dispatch q)"
  by (cases q)
    (simp_all add: d1_reads_only d2_reads_only price_european_call_def
      price_european_put_def delta_european_call_def delta_european_put_def
      gamma_def theta_european_call_def theta_european_put_def vega_def
      rho_european_call_def rho_european_put_def reads_only_intros)

lemma call_world: "self \<lparr>self = m, warnings = []\<rparr> = m"
  by simp

section \<open>Facts about the normal distribution\<close>

lemma gauss_term_sums:
  fixes x :: real
  shows "summable (\<lambda>k. (- 1 / 2) ^ k / (fact k * real (2 * k + 1)) * x ^ (2 * k + 1))"
proof (rule summable_comparison_test')
  show "summable (\<lambda>k. \<bar>x\<bar> * (inverse (fact k) * (x\<^sup>2 / 2) ^ k))"
    by (rule summable_mult) (rule summable_exp)
next
  fix k :: nat
  have "norm ((- 1 / 2) ^ k / (fact k * real (2 * k + 1)) * x ^ (2 * k + 1))
      = (1 / 2) ^ k / (fact k * real (2 * k + 1)) * (\<bar>x\<bar> * (x\<^sup>2) ^ k)"
    by (simp add: abs_mult power_abs power_mult power_divide abs_divide flip: power2_eq_square)
  also have "\<dots> = (\<bar>x\<bar> * (inverse (fact k) * (x\<^sup>2 / 2) ^ k)) / real (2 * k + 1)"
    by (simp add: power_divide field_simps)
  also have "\<dots> \<le> (\<bar>x\<bar> * (inverse (fact k) * (x\<^sup>2 / 2) ^ k)) / 1"
    by (rule divide_left_mono) auto
  finally show "norm ((- 1 / 2) ^ k / (fact k * real (2 * k + 1)) * x ^ (2 * k + 1))
      \<le> \<bar>x\<bar> * (inverse (fact k) * (x\<^sup>2 / 2) ^ k)"
    by simp
qed

lemma gauss_coeff_summable: "summable (\<lambda>n. gauss_coeff n * x ^ n)"
proof -
  let ?g = "\<lambda>k. (- 1 / 2) ^ k / (fact k * real (2 * k + 1)) * x ^ (2 * k + 1)"
  have "(\<lambda>n. if even n then 0 else ?g ((n - 1) div 2)) sums suminf ?g"
    by (rule sums_if') (rule summable_sums [OF gauss_term_sums])
  moreover have "(if even n then 0 else ?g ((n - 1) div 2)) = gauss_coeff n * x ^ n" for n
  proof (cases "even n")
    case True
    then show ?thesis by (simp add: gauss_coeff_def)
  next
    case False
    then have "2 * ((n - 1) div 2) + 1 = n" by presburger
    with False show ?thesis by (simp add: gauss_coeff_def)
  qed
  ultimately have "(\<lambda>n. gauss_coeff n * x ^ n) sums suminf ?g" by simp
  then show ?thesis by (rule sums_summable)
qed



lemma gauss_integral_0: "gauss_integral 0 = 0"
proof -
  have "gauss_coeff n * 0 ^ n = 0" for n
    by (cases n) (simp_all add: gauss_coeff_def)
  then have "(\<lambda>n. gauss_coeff n * 0 ^ n) = (\<lambda>n. 0)" by (rule ext)
  then show ?thesis by (simp only: gauss_integral_def suminf_zero)
qed

lemma gauss_integral_odd: "gauss_integral (- x) = - gauss_integral x"
proof -
  have "gauss_coeff n * (- x) ^ n = - (gauss_coeff n * x ^ n)" for n
    by (cases "even n") (simp_all add: gauss_coeff_def)
  then have "gauss_integral (- x) = (\<Sum>n. - (gauss_coeff n * x ^ n))"
    by (simp add: gauss_integral_def)
  also have "\<dots> = - gauss_integral x"
    unfolding gauss_integral_def by (rule suminf_minus) (rule gauss_coeff_summable)
  finally show ?thesis .
qed


lemma Phi_symmetric: "Phi x + Phi (- x) = 1"
  by (simp add: Phi_def gauss_integral_odd)

lemma Phi_0: "Phi 0 = 1 / 2"
  by (simp add: Phi_def gauss_integral_0)

lemma Phi_neg: "Phi (- x) = 1 - Phi x"
  using Phi_symmetric [of x] by simp

section \<open>The distribution function lies strictly between zero and one\<close>















section \<open>The price as a function of the spot\<close>






section \<open>The claims\<close>



text \<open>
  C2. Put-call parity on price: for valid parameters (positive spot and strike, time to
  expiry at least zero, positive volatility when time to expiry is positive) both prices
  are finite numbers and call minus put is \<open>S - K exp(- r T)\<close>, in exact real
  arithmetic.
\<close>
theorem put_call_parity:
  assumes "0 < S m" and "0 < K m" and "0 \<le> T m" and "0 < T m \<longrightarrow> 0 < sigma m"
  shows "\<exists>c p. result price_european_call m = Inr (Fin c) \<and>
               result price_european_put m = Inr (Fin p) \<and>
               c - p = S m - K m * exp (- r m * T m)"
proof (cases "T m = 0")
  case True
  with assms show ?thesis
    by (simp add: result_def call_def call_expiry put_expiry)
next
  case False
  let ?c = "S m * Phi (d1_real m) - K m * exp (- r m * T m) * Phi (d2_real m)"
  let ?p = "K m * exp (- r m * T m) * Phi (- d2_real m) - S m * Phi (- d1_real m)"
  from False assms have pos: "0 < T m" "sigma m \<noteq> 0" by simp_all
  have "result price_european_call m = Inr (Fin ?c)"
    using assms pos by (simp add: result_def call_def call_regular)
  moreover have "result price_european_put m = Inr (Fin ?p)"
    using assms pos by (simp add: result_def call_def put_regular)
  moreover have "?c - ?p = S m - K m * exp (- r m * T m)"
    by (simp add: Phi_neg algebra_simps)
  ultimately show ?thesis by blast
qed

theorem put_call_parity_witness:
  "\<exists>c p. result price_european_call \<lparr>S = 100, K = 100, T = 1, r = 5 / 100, sigma = 2 / 10\<rparr> = Inr (Fin c) \<and>
         result price_european_put \<lparr>S = 100, K = 100, T = 1, r = 5 / 100, sigma = 2 / 10\<rparr> = Inr (Fin p) \<and>
         c - p = 100 - 100 * exp (- (5 / 100))"
  using put_call_parity [of "\<lparr>S = 100, K = 100, T = 1, r = 5 / 100, sigma = 2 / 10\<rparr>"]
  by simp



text \<open>
  C4. At \<open>T = 0\<close> the price methods are specified to skip \<^verbatim>\<open>d1\<close> and \<^verbatim>\<open>d2\<close>
  entirely, so that no division by \<open>sigma * sqrt T = 0\<close> happens. Both methods call
  \<^verbatim>\<open>self.d1()\<close> and \<^verbatim>\<open>self.d2()\<close> before they test \<^verbatim>\<open>self.T == 0\<close>: at the
  expiring option of the test suite \<^verbatim>\<open>d1\<close> divides zero by zero, returns NaN, and each
  price method emits the warning of that division twice (once for its call of \<^verbatim>\<open>d1\<close>,
  once for the call of \<^verbatim>\<open>d1\<close> inside \<^verbatim>\<open>d2\<close>).
\<close>
theorem price_at_expiry_divides_by_zero:
  "result d1 \<lparr>S = 100, K = 100, T = 0, r = 5 / 100, sigma = 2 / 10\<rparr> = Inr NaN \<and>
   emitted d1 \<lparr>S = 100, K = 100, T = 0, r = 5 / 100, sigma = 2 / 10\<rparr> = [InvalidValue] \<and>
   emitted price_european_call \<lparr>S = 100, K = 100, T = 0, r = 5 / 100, sigma = 2 / 10\<rparr> =
     [InvalidValue, InvalidValue] \<and>
   emitted price_european_put \<lparr>S = 100, K = 100, T = 0, r = 5 / 100, sigma = 2 / 10\<rparr> =
     [InvalidValue, InvalidValue]"
  by (simp add: result_def emitted_def call_def d1_expiry call_expiry put_expiry)











text \<open>
  C9. Each of the twelve queries leaves the five fields as they were: the object after
  the call is the object before it, in whatever world the query runs, and the query
  asked again of the object it left behind has the same outcome.
\<close>
theorem queries_read_only:
  "after (dispatch q) m = m \<and>
   result (dispatch q) (after (dispatch q) m) = result (dispatch q) m \<and>
   self (snd (dispatch q w)) = self w \<and>
   fst (dispatch q (snd (dispatch q w))) = fst (dispatch q w)"
  using dispatch_reads_only [of q]
  unfolding reads_only_def after_def result_def call_def
  by (metis call_world)

text \<open>
  C10. For positive spot, strike, time to expiry and volatility, both thetas are finite
  numbers and call theta minus put theta is \<open>- r K exp(- r T)\<close>, in exact real
  arithmetic.
\<close>
theorem theta_parity:
  assumes "0 < S m" and "0 < K m" and "0 < T m" and "0 < sigma m"
  shows "\<exists>c p. result theta_european_call m = Inr (Fin c) \<and>
               result theta_european_put m = Inr (Fin p) \<and>
               c - p = - r m * K m * exp (- r m * T m)"
proof -
  let ?x = "- S m * sigma m * phi (d1_real m) / (2 * sqrt (T m))"
  let ?y = "r m * K m * exp (- r m * T m)"
  have "result theta_european_call m = Inr (Fin (?x - ?y * Phi (d2_real m)))"
    using assms by (simp add: result_def call_def theta_call_regular)
  moreover have "result theta_european_put m = Inr (Fin (?x + ?y * Phi (- d2_real m)))"
    using assms by (simp add: result_def call_def theta_put_regular)
  moreover have "(?x - ?y * Phi (d2_real m)) - (?x + ?y * Phi (- d2_real m)) = - r m * K m * exp (- r m * T m)"
    by (simp add: Phi_neg algebra_simps)
  ultimately show ?thesis by blast
qed

theorem theta_parity_witness:
  "\<exists>c p. result theta_european_call \<lparr>S = 100, K = 100, T = 1, r = 5 / 100, sigma = 2 / 10\<rparr> = Inr (Fin c) \<and>
         result theta_european_put \<lparr>S = 100, K = 100, T = 1, r = 5 / 100, sigma = 2 / 10\<rparr> = Inr (Fin p) \<and>
         c - p = - (5 / 100) * 100 * exp (- (5 / 100))"
  using theta_parity [of "\<lparr>S = 100, K = 100, T = 1, r = 5 / 100, sigma = 2 / 10\<rparr>"]
  by simp

end
